theory Spec2Isabelle
  imports Complex_Main
begin

section \<open>Python strings and numbers\<close>

text \<open>
  Text is modelled as \<^typ>\<open>string\<close> restricted to ASCII: one \<^typ>\<open>char\<close> per code
  point. The helpers below are the Python built-ins that \<open>sparkline_point_js\<close> calls:
  \<open>str.strip\<close>, \<open>str.lower\<close>, \<open>str.startswith\<close>, \<open>str.join\<close>, \<open>str(int)\<close>
  and \<open>int(s, 16)\<close>.
\<close>

definition is_space :: "char \<Rightarrow> bool" where
  \<comment> \<open>the ASCII code points for which \<open>str.isspace\<close> holds\<close>
  "is_space c = (c \<in> set [CHR 0x09, CHR 0x0A, CHR 0x0B, CHR 0x0C, CHR 0x0D,
                           CHR 0x1C, CHR 0x1D, CHR 0x1E, CHR 0x1F, CHR 0x20])"

definition lstrip :: "string \<Rightarrow> string" where
  "lstrip s = dropWhile is_space s"

definition rstrip :: "string \<Rightarrow> string" where
  "rstrip s = rev (dropWhile is_space (rev s))"

definition strip :: "string \<Rightarrow> string" where
  "strip s = rstrip (lstrip s)"

definition lower_char :: "char \<Rightarrow> char" where
  "lower_char c =
     (case map_of (zip ''ABCDEFGHIJKLMNOPQRSTUVWXYZ'' ''abcdefghijklmnopqrstuvwxyz'') c of
        Some d \<Rightarrow> d
      | None \<Rightarrow> c)"

definition lower :: "string \<Rightarrow> string" where
  "lower s = map lower_char s"

definition startswith :: "string \<Rightarrow> string \<Rightarrow> bool" where
  "startswith s p = (take (length p) s = p)"

fun join_str :: "string \<Rightarrow> string list \<Rightarrow> string" where
  "join_str sep [] = []"
| "join_str sep [s] = s"
| "join_str sep (s # t # ts) = s @ sep @ join_str sep (t # ts)"

fun str_nat :: "nat \<Rightarrow> string" where
  "str_nat n =
     (if n < 10 then [''0123456789'' ! n]
      else str_nat (n div 10) @ [''0123456789'' ! (n mod 10)])"

definition str_int :: "int \<Rightarrow> string" where
  "str_int i = (if i < 0 then CHR ''-'' # str_nat (nat (- i)) else str_nat (nat i))"

definition digit_value :: "char \<Rightarrow> nat option" where
  \<comment> \<open>the digits below base 16, in either case\<close>
  "digit_value c =
     map_of (zip ''0123456789abcdef'' [0 ..< 16] @ zip ''ABCDEF'' [10 ..< 16]) c"

definition is_hex :: "char \<Rightarrow> bool" where
  "is_hex c = (digit_value c \<noteq> None)"

fun no_double_underscore :: "string \<Rightarrow> bool" where
  "no_double_underscore (a # b # cs) =
     (\<not> (a = CHR ''_'' \<and> b = CHR ''_'') \<and> no_double_underscore (b # cs))"
| "no_double_underscore cs = True"

definition py_int16 :: "string \<Rightarrow> int option" where
  \<comment> \<open>\<open>int(s, 16)\<close>: surrounding whitespace, an optional sign, an optional \<open>0x\<close> prefix,
      then hex digits with single underscores between them; \<open>None\<close> is \<open>ValueError\<close>\<close>
  "py_int16 s =
     (let t = lstrip s;
          neg = startswith t ''-'';
          u = (if startswith t ''+'' \<or> startswith t ''-'' then drop 1 t else t);
          v = (if startswith u ''0x'' \<or> startswith u ''0X''
               then (if startswith (drop 2 u) ''_'' then drop 3 u else drop 2 u)
               else u);
          body = takeWhile (\<lambda>c. is_hex c \<or> c = CHR ''_'') v;
          rest = dropWhile (\<lambda>c. is_hex c \<or> c = CHR ''_'') v;
          ds = filter is_hex body
      in if startswith v ''_'' \<or> ds = [] \<or> \<not> no_double_underscore body
            \<or> last body = CHR ''_'' \<or> \<not> list_all is_space rest
         then None
         else let n = foldl (\<lambda>acc c. 16 * acc + int (the (digit_value c))) 0 ds
              in Some (if neg then - n else n))"

section \<open>Colour translation: \<open>to_rgba\<close>\<close>

definition quote :: "string \<Rightarrow> string" where
  "quote s = ''\"'' @ s @ ''\"''"

definition hex_to_rgba :: "string \<Rightarrow> string option" where
  \<comment> \<open>the body of the \<open>try\<close> block: \<open>Some\<close> is its \<open>return\<close>, \<open>None\<close> is falling out of
      it, by the length test or by the \<open>ValueError\<close> that is caught\<close>
  "hex_to_rgba hex_str0 =
     (let hex_str = (if length hex_str0 = 3 then concat (map (\<lambda>c. [c, c]) hex_str0)
                     else hex_str0)
      in if length hex_str = 6 then
           (case py_int16 (take 2 hex_str) of
              None \<Rightarrow> None
            | Some r \<Rightarrow>
               (case py_int16 (take 2 (drop 2 hex_str)) of
                  None \<Rightarrow> None
                | Some g \<Rightarrow>
                   (case py_int16 (take 2 (drop 4 hex_str)) of
                      None \<Rightarrow> None
                    | Some b \<Rightarrow>
                       Some (quote (''rgba('' @ str_int r @ '', '' @ str_int g @ '', ''
                                      @ str_int b @ '', 1)'')))))
         else None)"

definition to_rgba :: "string \<Rightarrow> string" where
  "to_rgba color_name =
     (let color_str = strip color_name
      in case (if startswith color_str ''#'' then hex_to_rgba (drop 1 color_str) else None) of
           Some out \<Rightarrow> out
         | None \<Rightarrow>
            if startswith (lower color_str) ''rgb'' then quote color_str
            else quote color_name)"

section \<open>The request and the dataset\<close>

text \<open>
  A Python number is an \<open>int\<close> or a \<open>float\<close>. A float is modelled by the rational it
  denotes, so rounding, infinities and NaN are outside the model; its \<open>str\<close> is the
  parameter \<open>fmt\<close> of the functions below.
\<close>

datatype pynum = PyInt int | PyFloat rat

definition str_num :: "(rat \<Rightarrow> string) \<Rightarrow> pynum \<Rightarrow> string" where
  "str_num fmt v = (case v of PyInt i \<Rightarrow> str_int i | PyFloat r \<Rightarrow> fmt r)"

text \<open>A parameter of type \<open>str | list[str]\<close>.\<close>

datatype str_or_list = Str string | StrList "string list"

text \<open>
  The exceptions of the function: the \<open>ValueError\<close> it raises itself, the \<open>TypeError\<close>
  of iterating \<open>None\<close>, and the lookup error of \<open>tbl[col]\<close> for an unknown column.
\<close>

datatype error = ValueError string | TypeError | ColumnNotFoundError string

text \<open>
  The data frame: its named columns in order, each a list of nullable numbers.
\<close>

type_synonym dataframe = "(string \<times> rat option list) list"

definition columns :: "dataframe \<Rightarrow> string list" where
  "columns tbl = map fst tbl"

definition get_column :: "dataframe \<Rightarrow> string \<Rightarrow> error + rat option list" where
  "get_column tbl col =
     (case map_of tbl col of
        None \<Rightarrow> Inl (ColumnNotFoundError col)
      | Some vs \<Rightarrow> Inr vs)"

definition drop_nulls :: "rat option list \<Rightarrow> rat list" where
  "drop_nulls vs = concat (map (\<lambda>v. case v of None \<Rightarrow> [] | Some r \<Rightarrow> [r]) vs)"

text \<open>The parameters of \<open>sparkline_point_js\<close> other than \<open>tbl\<close>, in its order.\<close>

record args =
  arg_x :: str_or_list
  arg_type :: string
  arg_x_lower :: "str_or_list option"
  arg_x_upper :: "str_or_list option"
  arg_xlim :: "(pynum \<times> pynum) option"
  arg_xlab :: string
  arg_y :: "pynum list option"
  arg_vline :: "pynum option"
  arg_text :: "str_or_list option"
  arg_height :: pynum
  arg_width :: pynum
  arg_color :: str_or_list
  arg_color_errorbar :: "str_or_list option"
  arg_color_vline :: string
  arg_legend :: bool
  arg_legend_label :: "string list option"
  arg_legend_title :: string
  arg_legend_position :: pynum
  arg_legend_type :: string
  arg_margin :: "int list option"

definition default_args :: "str_or_list \<Rightarrow> args" where
  \<comment> \<open>a call that passes only \<open>x\<close>: every other parameter at its default\<close>
  "default_args xs =
     \<lparr> arg_x = xs, arg_type = ''cell'', arg_x_lower = None, arg_x_upper = None,
       arg_xlim = None, arg_xlab = [], arg_y = None, arg_vline = None, arg_text = None,
       arg_height = PyInt 30, arg_width = PyInt 150, arg_color = Str ''#FFD700'',
       arg_color_errorbar = None, arg_color_vline = ''#00000050'', arg_legend = False,
       arg_legend_label = None, arg_legend_title = [], arg_legend_position = PyInt 0,
       arg_legend_type = ''point'', arg_margin = None \<rparr>"

section \<open>Defaults and broadcasting\<close>

definition margin_list :: "args \<Rightarrow> int list" where
  "margin_list a = (case arg_margin a of None \<Rightarrow> [0, 0, 0, 0, 0] | Some m \<Rightarrow> m)"

definition x_upper0 :: "args \<Rightarrow> str_or_list option" where
  "x_upper0 a = (case arg_x_upper a of None \<Rightarrow> arg_x_lower a | Some u \<Rightarrow> Some u)"

definition color_errorbar0 :: "args \<Rightarrow> str_or_list" where
  "color_errorbar0 a = (case arg_color_errorbar a of None \<Rightarrow> arg_color a | Some c \<Rightarrow> c)"

definition x_list :: "args \<Rightarrow> string list" where
  "x_list a = (case arg_x a of Str s \<Rightarrow> [s] | StrList l \<Rightarrow> l)"

definition broadcast :: "nat \<Rightarrow> str_or_list \<Rightarrow> string list" where
  \<comment> \<open>\<open>[v] * len(x)\<close> for a string, the list itself otherwise\<close>
  "broadcast n v = (case v of Str s \<Rightarrow> replicate n s | StrList l \<Rightarrow> l)"

definition color_list :: "args \<Rightarrow> string list" where
  "color_list a = broadcast (length (x_list a)) (arg_color a)"

definition color_errorbar_list :: "args \<Rightarrow> string list" where
  "color_errorbar_list a = broadcast (length (x_list a)) (color_errorbar0 a)"

definition y_list :: "args \<Rightarrow> pynum list" where
  "y_list a =
     (case arg_y a of
        None \<Rightarrow> map (\<lambda>k. PyInt (int k)) [1 ..< length (x_list a) + 1]
      | Some ys \<Rightarrow> ys)"

definition text_list :: "args \<Rightarrow> string list" where
  "text_list a =
     (case arg_text a of
        None \<Rightarrow> replicate (length (x_list a)) ''\"\"''
      | Some t \<Rightarrow> broadcast (length (x_list a)) t)"

section \<open>Input validation\<close>

definition not_found :: "string \<Rightarrow> error" where
  "not_found col =
     ValueError (''Column '' @ [CHR 0x27] @ col @ [CHR 0x27] @ '' not found in DataFrame'')"

fun check_columns :: "string list \<Rightarrow> string list \<Rightarrow> error + unit" where
  "check_columns cols [] = Inr ()"
| "check_columns cols (col # rest) =
     (if col \<in> set cols then check_columns cols rest else Inl (not_found col))"

definition x_lower_list :: "args \<Rightarrow> string list option" where
  "x_lower_list a = map_option (broadcast (length (x_list a))) (arg_x_lower a)"

definition x_upper_list :: "args \<Rightarrow> string list option" where
  "x_upper_list a = map_option (broadcast (length (x_list a))) (x_upper0 a)"

definition validate :: "dataframe \<Rightarrow> args \<Rightarrow> error + unit" where
  "validate tbl a =
     (case check_columns (columns tbl) (x_list a) of
        Inl e \<Rightarrow> Inl e
      | Inr _ \<Rightarrow>
         (case (case x_lower_list a of
                  None \<Rightarrow> Inr ()
                | Some cs \<Rightarrow> check_columns (columns tbl) cs) of
            Inl e \<Rightarrow> Inl e
          | Inr _ \<Rightarrow>
             (case x_upper_list a of
                None \<Rightarrow> Inr ()
              | Some cs \<Rightarrow> check_columns (columns tbl) cs)))"

section \<open>The JavaScript fragments\<close>

definition cell_ref :: "string \<Rightarrow> string" where
  "cell_ref col = ''cell.row[\"'' @ col @ ''\"]''"

definition x_positions :: "args \<Rightarrow> string list" where
  \<comment> \<open>the items that are joined into \<open>js_x\<close>\<close>
  "x_positions a =
     (if arg_type a = ''cell'' then map cell_ref (x_list a)
      else map str_nat [0 ..< length (color_list a)])"

definition js_x :: "args \<Rightarrow> string" where
  "js_x a = join_str '', '' (x_positions a)"

definition js_y :: "(rat \<Rightarrow> string) \<Rightarrow> args \<Rightarrow> string" where
  "js_y fmt a = join_str '', '' (map (str_num fmt) (y_list a))"

definition error_bars :: "args \<Rightarrow> error + (string \<times> string \<times> string list)" where
  \<comment> \<open>\<open>js_x_lower\<close>, \<open>js_x_upper\<close> and the final \<open>color_errorbar\<close>\<close>
  "error_bars a =
     (if x_lower_list a = None \<or> arg_type a \<in> set [''footer'', ''header'']
      then Inr (''0'', ''0'', replicate (length (x_list a)) ''#FFFFFF00'')
      else (case x_lower_list a of
              None \<Rightarrow> Inl TypeError
            | Some lo \<Rightarrow>
               (case x_upper_list a of
                  None \<Rightarrow> Inl TypeError
                | Some up \<Rightarrow>
                   Inr (join_str '', '' (map cell_ref lo),
                        join_str '', '' (map cell_ref up),
                        color_errorbar_list a))))"

subsection \<open>The range of the x axis\<close>

fun collect_x_vals :: "dataframe \<Rightarrow> string list \<Rightarrow> error + rat list" where
  "collect_x_vals tbl [] = Inr []"
| "collect_x_vals tbl (col # rest) =
     (case get_column tbl col of
        Inl e \<Rightarrow> Inl e
      | Inr vs \<Rightarrow>
         (case collect_x_vals tbl rest of
            Inl e \<Rightarrow> Inl e
          | Inr ws \<Rightarrow> Inr (drop_nulls vs @ ws)))"

fun py_min :: "rat list \<Rightarrow> rat" where
  "py_min (v # vs) = foldl (\<lambda>m w. if w < m then w else m) v vs"

fun py_max :: "rat list \<Rightarrow> rat" where
  "py_max (v # vs) = foldl (\<lambda>m w. if w > m then w else m) v vs"

definition x_range :: "dataframe \<Rightarrow> args \<Rightarrow> error + (pynum \<times> pynum)" where
  "x_range tbl a =
     (case arg_xlim a of
        Some xlim \<Rightarrow> Inr xlim
      | None \<Rightarrow>
         (case collect_x_vals tbl (x_list a) of
            Inl e \<Rightarrow> Inl e
          | Inr x_vals \<Rightarrow>
             if x_vals \<noteq> []
             then Inr (PyFloat (py_min x_vals - 1 / 2), PyFloat (py_max x_vals + 1 / 2))
             else Inr (PyInt 0, PyInt 1)))"

definition js_x_range :: "(rat \<Rightarrow> string) \<Rightarrow> pynum \<times> pynum \<Rightarrow> string" where
  "js_x_range fmt xlim = str_num fmt (fst xlim) @ '', '' @ str_num fmt (snd xlim)"

definition js_y_range :: "args \<Rightarrow> string" where
  "js_y_range a = ''0, '' @ str_nat (length (x_list a) + 1)"

subsection \<open>Legend, margins and traces\<close>

definition legend_type_map :: "(string \<times> string) list" where
  "legend_type_map =
     [(''point'', ''markers''), (''line'', ''lines''), (''point+line'', ''markers+lines'')]"

definition js_legend_type :: "args \<Rightarrow> string" where
  "js_legend_type a =
     (case map_of legend_type_map (arg_legend_type a) of
        Some m \<Rightarrow> m
      | None \<Rightarrow> ''markers'')"

definition js_legend_label :: "args \<Rightarrow> string" where
  "js_legend_label a =
     (case arg_legend_label a of
        None \<Rightarrow> []
      | Some labels \<Rightarrow>
         if labels \<noteq> [] then join_str '', '' (map quote labels) else [])"

definition js_margin :: "args \<Rightarrow> string" where
  "js_margin a = join_str '', '' (map str_int (margin_list a))"

definition trace :: "string \<Rightarrow> nat \<Rightarrow> string" where
  "trace mode i =
     concat
      [''{\<newline>'',
       ''        \"x\": [x['', str_nat i, '']],\<newline>'',
       ''        \"y\": [y['', str_nat i, '']],\<newline>'',
       ''        \"error_x\": {\<newline>'',
       ''            type: \"data\",\<newline>'',
       ''            symmetric: false,\<newline>'',
       ''            array: [x_upper['', str_nat i, '']],\<newline>'',
       ''            arrayminus: [x_lower['', str_nat i, '']],\<newline>'',
       ''            \"color\": color_errorbar['', str_nat i, '']\<newline>'',
       ''        },\<newline>'',
       ''        \"text\": text['', str_nat i, ''],\<newline>'',
       ''        \"hoverinfo\": \"text\",\<newline>'',
       ''        \"mode\": \"'', mode, ''\",\<newline>'',
       ''        \"alpha_stroke\": 1,\<newline>'',
       ''        \"sizes\": [10, 100],\<newline>'',
       ''        \"spans\": [1, 20],\<newline>'',
       ''        \"type\": \"scatter\",\<newline>'',
       ''        \"name\": legend_label['', str_nat i, ''],\<newline>'',
       ''        \"marker\": {\<newline>'',
       ''            \"color\": [color['', str_nat i, '']],\<newline>'',
       ''            \"line\": {\<newline>'',
       ''                \"color\": color['', str_nat i, '']\<newline>'',
       ''            }\<newline>'',
       ''        },\<newline>'',
       ''        \"line\": {\<newline>'',
       ''            \"color\": color['', str_nat i, '']\<newline>'',
       ''        }\<newline>'',
       ''    }'']"

definition data_traces :: "args \<Rightarrow> string list" where
  "data_traces a = map (trace (js_legend_type a)) [0 ..< length (x_list a)]"

definition data_trace :: "args \<Rightarrow> string" where
  "data_trace a = join_str '',\<newline>      '' (data_traces a)"

section \<open>Template substitution\<close>

text \<open>
  \<open>string.Template.safe_substitute\<close>: \<open>$$\<close> is an escaped delimiter, \<open>$name\<close> and
  \<open>${name}\<close> are placeholders (an identifier of ASCII letters, digits and underscores
  that does not start with a digit), and a placeholder without a value, like any other
  \<open>$\<close>, stays as it is.
\<close>

definition is_id_start :: "char \<Rightarrow> bool" where
  "is_id_start c =
     (c \<in> set ''_abcdefghijklmnopqrstuvwxyzABCDEFGHIJKLMNOPQRSTUVWXYZ'')"

definition is_id_char :: "char \<Rightarrow> bool" where
  "is_id_char c = (is_id_start c \<or> c \<in> set ''0123456789'')"

definition named_at :: "string \<Rightarrow> bool" where
  "named_at cs = (case cs of [] \<Rightarrow> False | c # _ \<Rightarrow> is_id_start c)"

definition braced_at :: "string \<Rightarrow> bool" where
  "braced_at cs =
     (startswith cs ''{'' \<and> named_at (drop 1 cs)
      \<and> startswith (dropWhile is_id_char (drop 1 cs)) ''}'')"

definition lookup_or :: "(string \<times> string) list \<Rightarrow> string \<Rightarrow> string \<Rightarrow> string" where
  "lookup_or kws name whole = (case map_of kws name of Some v \<Rightarrow> v | None \<Rightarrow> whole)"

function safe_substitute :: "(string \<times> string) list \<Rightarrow> string \<Rightarrow> string" where
  "safe_substitute kws [] = []"
| "safe_substitute kws (c # cs) =
     (if c \<noteq> CHR ''$'' then c # safe_substitute kws cs
      else if startswith cs ''$'' then CHR ''$'' # safe_substitute kws (drop 1 cs)
      else if named_at cs then
        lookup_or kws (takeWhile is_id_char cs) (CHR ''$'' # takeWhile is_id_char cs)
        @ safe_substitute kws (dropWhile is_id_char cs)
      else if braced_at cs then
        lookup_or kws (takeWhile is_id_char (drop 1 cs))
          (''${'' @ takeWhile is_id_char (drop 1 cs) @ ''}'')
        @ safe_substitute kws (drop 1 (dropWhile is_id_char (drop 1 cs)))
      else CHR ''$'' # safe_substitute kws cs)"
  by pat_completeness auto
termination
proof (relation "measure (\<lambda>(kws, s). length s)")
  fix kws :: "(string \<times> string) list" and c :: char and cs :: string
  have "length (dropWhile is_id_char cs) \<le> length cs"
    by (rule length_dropWhile_le)
  then show "((kws, dropWhile is_id_char cs), kws, c # cs) \<in> measure (\<lambda>(kws, s). length s)"
    by simp
  have "length (dropWhile is_id_char (drop 1 cs)) \<le> length (drop 1 cs)"
    by (rule length_dropWhile_le)
  then show "((kws, drop 1 (dropWhile is_id_char (drop 1 cs))), kws, c # cs)
               \<in> measure (\<lambda>(kws, s). length s)"
    by simp
qed simp_all

section \<open>The generator\<close>

definition js_vars :: "(rat \<Rightarrow> string) \<Rightarrow> dataframe \<Rightarrow> args \<Rightarrow> error + (string \<times> string) list" where
  \<comment> \<open>everything up to the keyword arguments of \<open>safe_substitute\<close>\<close>
  "js_vars fmt tbl a =
     (case validate tbl a of
        Inl e \<Rightarrow> Inl e
      | Inr _ \<Rightarrow>
         (case error_bars a of
            Inl e \<Rightarrow> Inl e
          | Inr (js_x_lower, js_x_upper, color_errorbar) \<Rightarrow>
             (case x_range tbl a of
                Inl e \<Rightarrow> Inl e
              | Inr xlim \<Rightarrow>
                 Inr [(''js_x'', js_x a),
                      (''js_y'', js_y fmt a),
                      (''js_x_lower'', js_x_lower),
                      (''js_x_upper'', js_x_upper),
                      (''js_x_range'', js_x_range fmt xlim),
                      (''js_y_range'', js_y_range a),
                      (''js_vline'',
                         (case arg_vline a of Some v \<Rightarrow> str_num fmt v | None \<Rightarrow> ''[]'')),
                      (''js_text'', join_str '', '' (text_list a)),
                      (''js_height'', str_num fmt (arg_height a)),
                      (''js_width'', str_num fmt (arg_width a)),
                      (''js_color'', join_str '', '' (map to_rgba (color_list a))),
                      (''js_color_errorbar'', join_str '', '' (map to_rgba color_errorbar)),
                      (''js_color_vline'', to_rgba (arg_color_vline a)),
                      (''js_margin'', js_margin a),
                      (''js_xlab'', arg_xlab a),
                      (''js_showlegend'', (if arg_legend a then ''true'' else ''false'')),
                      (''js_legend_title'', arg_legend_title a),
                      (''js_legend_position'', str_num fmt (arg_legend_position a)),
                      (''js_legend_label'', js_legend_label a),
                      (''data_trace'', data_trace a)])))"

definition sparkline_point_js ::
  "string \<Rightarrow> (rat \<Rightarrow> string) \<Rightarrow> dataframe \<Rightarrow> args \<Rightarrow> error + string" where
  \<comment> \<open>\<open>template_content\<close> is the text of \<open>sparkline.js\<close>, read after everything else\<close>
  "sparkline_point_js template_content fmt tbl a =
     (case js_vars fmt tbl a of
        Inl e \<Rightarrow> Inl e
      | Inr kws \<Rightarrow> Inr (safe_substitute kws template_content))"

section \<open>Notions used in the statements\<close>

definition binding :: "string \<Rightarrow> error + (string \<times> string) list \<Rightarrow> error + string option" where
  \<comment> \<open>the text that a run hands to the template for one placeholder\<close>
  "binding name r = (case r of Inl e \<Rightarrow> Inl e | Inr kws \<Rightarrow> Inr (map_of kws name))"



definition checked_columns :: "args \<Rightarrow> string list" where
  \<comment> \<open>the columns that the three validation loops visit, in their order\<close>
  "checked_columns a =
     x_list a @ (case x_lower_list a of None \<Rightarrow> [] | Some cs \<Rightarrow> cs)
       @ (case x_upper_list a of None \<Rightarrow> [] | Some cs \<Rightarrow> cs)"








subsection \<open>The call of \<open>example_sparkline.py\<close>\<close>

definition example_data :: dataframe where
  "example_data =
     [(''value'', [Some (51 / 10), Some (49 / 10), Some (47 / 10)]),
      (''error'', [Some (3 / 10), Some (2 / 10), Some (4 / 10)])]"

definition example_args :: args where
  "example_args = (default_args (Str ''value'')) \<lparr> arg_x_lower := Some (Str ''error'') \<rparr>"

definition footer_args :: args where
  \<comment> \<open>two value columns and three colours, in a footer\<close>
  "footer_args =
     (default_args (StrList [''value'', ''error'']))
       \<lparr> arg_type := ''footer'', arg_color := StrList [''red'', ''green'', ''blue''] \<rparr>"

definition summary_args :: args where
  \<comment> \<open>the example call with a type that is none of cell, footer and header\<close>
  "summary_args = example_args \<lparr> arg_type := ''summary'' \<rparr>"

definition missing_lower_args :: args where
  \<comment> \<open>the value column exists, the lower-bound column does not\<close>
  "missing_lower_args = (default_args (Str ''value'')) \<lparr> arg_x_lower := Some (Str ''nope'') \<rparr>"




definition mismatched_args :: args where
  \<comment> \<open>two value columns, and no per-series list of length two\<close>
  "mismatched_args =
     (default_args (StrList [''value'', ''error'']))
       \<lparr> arg_x_lower := Some (Str ''error''),
         arg_y := Some [PyInt 1],
         arg_text := Some (StrList []),
         arg_color := StrList [''red'', ''green'', ''blue''],
         arg_color_errorbar := Some (StrList [''black'']),
         arg_legend_label := Some [''a'', ''b'', ''c''] \<rparr>"



definition example_template :: string where
  \<comment> \<open>a small template that uses the placeholder of the traces\<close>
  "example_template = ''function(cell, state) { const data = [$data_trace]; return data; }''"

definition fmt_tenths :: "rat \<Rightarrow> string" where
  \<comment> \<open>a formatter for the examples: one decimal digit\<close>
  "fmt_tenths r =
     (if r < 0 then ''-'' else []) @ str_int \<lfloor>\<bar>r\<bar>\<rfloor> @ ''.''
       @ str_int \<lfloor>(\<bar>r\<bar> - of_int \<lfloor>\<bar>r\<bar>\<rfloor>) * 10\<rfloor>"

section \<open>Lemmas about validation and the bindings\<close>

lemma check_columns_find:
  "check_columns cols cs =
     (case find (\<lambda>c. c \<notin> set cols) cs of None \<Rightarrow> Inr () | Some c \<Rightarrow> Inl (not_found c))"
  by (induction cs) auto

lemma check_columns_ok: "check_columns cols cs = Inr () \<longleftrightarrow> set cs \<subseteq> set cols"
  by (induction cs) auto

lemma check_columns_err:
  "check_columns cols cs = Inl e \<Longrightarrow> \<exists>c \<in> set cs. c \<notin> set cols \<and> e = not_found c"
  by (induction cs) (auto split: if_splits)

lemma x_upper_list_Some:
  "x_lower_list a = Some lo \<Longrightarrow> \<exists>up. x_upper_list a = Some up"
  by (auto simp: x_lower_list_def x_upper_list_def x_upper0_def split: option.splits)

lemma error_bars_total: "\<exists>r. error_bars a = Inr r"
  using x_upper_list_Some [of a]
  by (auto simp: error_bars_def split: option.splits)

lemma get_column_ok: "col \<in> set (columns tbl) \<Longrightarrow> \<exists>vs. get_column tbl col = Inr vs"
  by (auto simp: get_column_def columns_def map_of_eq_None_iff split: option.splits)

lemma collect_x_vals_ok:
  "set cs \<subseteq> set (columns tbl) \<Longrightarrow> \<exists>vals. collect_x_vals tbl cs = Inr vals"
proof (induction cs)
  case Nil
  then show ?case by simp
next
  case (Cons c cs)
  then obtain vs ws where "get_column tbl c = Inr vs" "collect_x_vals tbl cs = Inr ws"
    using get_column_ok [of c tbl] by auto
  then show ?case by simp
qed

lemma x_range_ok:
  "set (x_list a) \<subseteq> set (columns tbl) \<Longrightarrow> \<exists>xlim. x_range tbl a = Inr xlim"
  using collect_x_vals_ok [of "x_list a" tbl]
  by (auto simp: x_range_def split: option.splits)

lemma validate_x: "validate tbl a = Inr u \<Longrightarrow> set (x_list a) \<subseteq> set (columns tbl)"
  by (auto simp: validate_def check_columns_ok split: sum.splits)

lemma js_vars_ok_iff:
  "(\<exists>kws. js_vars fmt tbl a = Inr kws) \<longleftrightarrow> validate tbl a = Inr ()"
  using error_bars_total [of a] x_range_ok [of a tbl] validate_x [of tbl a]
  by (auto simp: js_vars_def split: sum.splits prod.splits)

lemma js_vars_err:
  "js_vars fmt tbl a = Inl e \<Longrightarrow> validate tbl a = Inl e"
  using error_bars_total [of a] x_range_ok [of a tbl] validate_x [of tbl a]
  by (auto simp: js_vars_def split: sum.splits prod.splits)

lemma binding_js_vars:
  assumes "js_vars fmt tbl a = Inr kws"
  shows "map_of kws ''js_x'' = Some (js_x a)"
    and "map_of kws ''js_margin'' = Some (js_margin a)"
    and "map_of kws ''data_trace'' = Some (data_trace a)"
    and "\<exists>ce. error_bars a = Inr (the (map_of kws ''js_x_lower''), the (map_of kws ''js_x_upper''), ce)
            \<and> map_of kws ''js_color_errorbar'' = Some (join_str '', '' (map to_rgba ce))"
    and "\<exists>xlim. x_range tbl a = Inr xlim \<and> map_of kws ''js_x_range'' = Some (js_x_range fmt xlim)"
  using assms by (auto simp: js_vars_def split: sum.splits prod.splits)


lemma example_args_simps:
  "arg_margin example_args = None"
  "arg_xlim example_args = None"
  "arg_type example_args = ''cell''"
  "arg_x example_args = Str ''value''"
  "arg_x_lower example_args = Some (Str ''error'')"
  "arg_x_upper example_args = None"
  "arg_color example_args = Str ''#FFD700''"
  by (simp_all add: example_args_def default_args_def)

lemma example_validate: "validate example_data example_args = Inr ()"
  by code_simp





lemma find_append_case:
  "find P (xs @ ys) = (case find P xs of None \<Rightarrow> find P ys | Some x \<Rightarrow> Some x)"
  by (induction xs) auto


lemma validate_find:
  "validate tbl a =
     (case find (\<lambda>c. c \<notin> set (columns tbl)) (checked_columns a) of
        None \<Rightarrow> Inr ()
      | Some c \<Rightarrow> Inl (not_found c))"
  by (auto simp: validate_def checked_columns_def check_columns_find find_append_case
           split: option.splits)

lemma sparkline_err:
  "validate tbl a = Inl e \<Longrightarrow> sparkline_point_js t fmt tbl a = Inl e"
  by (simp add: sparkline_point_js_def js_vars_def)










lemma validate_ok_checked:
  "validate tbl a = Inr () \<longleftrightarrow> set (checked_columns a) \<subseteq> set (columns tbl)"
proof -
  have "validate tbl a = Inr () \<longleftrightarrow>
        find (\<lambda>c. c \<notin> set (columns tbl)) (checked_columns a) = None"
    by (simp add: validate_find split: option.splits)
  also have "\<dots> \<longleftrightarrow> set (checked_columns a) \<subseteq> set (columns tbl)"
    by (auto simp: find_None_iff)
  finally show ?thesis .
qed


lemma validate_indep:
  "validate tbl (a \<lparr> arg_y := y, arg_text := tx, arg_color := c, arg_color_errorbar := ce,
                    arg_legend_label := ll \<rparr>) = validate tbl a"
proof -
  let ?a = "a \<lparr> arg_y := y, arg_text := tx, arg_color := c, arg_color_errorbar := ce,
                    arg_legend_label := ll \<rparr>"
  have h: "x_list ?a = x_list a" "x_lower_list ?a = x_lower_list a" "x_upper_list ?a = x_upper_list a"
    by (simp_all add: x_list_def x_lower_list_def x_upper_list_def x_upper0_def
                 split: option.splits)
  show ?thesis
    unfolding validate_def h by (rule refl)
qed

lemma find_SomeD: "find P xs = Some x \<Longrightarrow> x \<in> set xs \<and> P x"
  by (induction xs) (auto split: if_splits)

lemma validate_Inl_D:
  "validate tbl a = Inl e \<Longrightarrow>
   \<exists>c \<in> set (checked_columns a). c \<notin> set (columns tbl) \<and> e = not_found c"
proof -
  assume v: "validate tbl a = Inl e"
  then obtain c where f: "find (\<lambda>c. c \<notin> set (columns tbl)) (checked_columns a) = Some c"
      and e: "e = not_found c"
    by (cases "find (\<lambda>c. c \<notin> set (columns tbl)) (checked_columns a)")
       (simp_all add: validate_find)
  from find_SomeD [OF f] e show ?thesis by blast
qed

lemma sparkline_Inl_iff:
  "sparkline_point_js t fmt tbl a = Inl e \<longleftrightarrow> validate tbl a = Inl e"
proof
  assume s: "sparkline_point_js t fmt tbl a = Inl e"
  then have "js_vars fmt tbl a = Inl e"
    by (cases "js_vars fmt tbl a") (simp_all add: sparkline_point_js_def)
  then show "validate tbl a = Inl e"
    by (rule js_vars_err)
next
  assume "validate tbl a = Inl e"
  then show "sparkline_point_js t fmt tbl a = Inl e"
    by (rule sparkline_err)
qed

lemma sparkline_isl_iff:
  "isl (sparkline_point_js t fmt tbl a) \<longleftrightarrow> \<not> set (checked_columns a) \<subseteq> set (columns tbl)"
proof -
  have "isl (sparkline_point_js t fmt tbl a) \<longleftrightarrow> (\<exists>e. validate tbl a = Inl e)"
    using sparkline_Inl_iff [of t fmt tbl a] by (metis isl_def)
  also have "\<dots> \<longleftrightarrow> validate tbl a \<noteq> Inr ()"
    by (cases "validate tbl a") simp_all
  finally show ?thesis
    by (simp add: validate_ok_checked)
qed



lemma example_columns: "columns example_data = [''value'', ''error'']"
  by (simp add: columns_def example_data_def)

lemma not_found_inj: "not_found c = not_found d \<longleftrightarrow> c = d"
  by (simp add: not_found_def)

lemma example_validates:
  "validate example_data (default_args (Str ''value'')) = Inr ()"
  "validate example_data footer_args = Inr ()"
  "validate example_data summary_args = Inr ()"
  by code_simp+

section \<open>Lemmas about colours\<close>

















section \<open>Properties\<close>

text \<open>
  C7 (as amended). When \<open>margin\<close> is not given, the margins are the five zeros
  \<open>[0, 0, 0, 0, 0]\<close> (bottom, left, top, right, padding), and the text bound to the
  placeholder \<open>js_margin\<close> is \<open>0, 0, 0, 0, 0\<close>.
\<close>

theorem margin_default:
  assumes "arg_margin a = None"
  shows "margin_list a = [0, 0, 0, 0, 0] \<and> js_margin a = ''0, 0, 0, 0, 0'' \<and>
         (js_vars fmt tbl a = Inr kws \<longrightarrow> map_of kws ''js_margin'' = Some ''0, 0, 0, 0, 0'')"
proof -
  have m: "margin_list a = [0, 0, 0, 0, 0]"
    using assms by (simp add: margin_list_def)
  have "str_int 0 = ''0''" by code_simp
  then have j: "js_margin a = ''0, 0, 0, 0, 0''"
    by (simp add: js_margin_def m)
  show ?thesis using m j binding_js_vars(2) [of fmt tbl a kws] by simp
qed

theorem margin_default_witness:
  "arg_margin example_args = None \<and> margin_list example_args = [0, 0, 0, 0, 0] \<and>
   binding ''js_margin'' (js_vars fmt_tenths example_data example_args)
     = Inr (Some ''0, 0, 0, 0, 0'')"
proof -
  obtain kws where k: "js_vars fmt_tenths example_data example_args = Inr kws"
    using js_vars_ok_iff [of fmt_tenths example_data example_args] example_validate by auto
  show ?thesis
    using margin_default [OF example_args_simps(1), of fmt_tenths example_data kws] k
    by (simp add: binding_def example_args_simps)
qed

text \<open>
  C7 as the specification words it: a box of four zeros. The default has five elements.
\<close>

theorem margin_four_counterexample:
  "arg_margin (default_args (Str ''value'')) = None \<and>
   margin_list (default_args (Str ''value'')) \<noteq> [0, 0, 0, 0] \<and>
   length (margin_list (default_args (Str ''value''))) = 5"
  by (simp add: margin_list_def default_args_def)

text \<open>
  C10. When the type is not \<open>cell\<close>, the x positions are the indices \<open>0, ..., n - 1\<close>
  where \<open>n\<close> is the length of the broadcast colour list, not of the value-column list:
  there are as many positions as value columns exactly when the colour list has that
  length, as it has when the colour was given as one string.
\<close>

theorem x_positions_non_cell:
  assumes "arg_type a \<noteq> ''cell''"
  shows "x_positions a = map str_nat [0 ..< length (color_list a)] \<and>
         (js_vars fmt tbl a = Inr kws \<longrightarrow>
            map_of kws ''js_x'' = Some (join_str '', '' (map str_nat [0 ..< length (color_list a)]))) \<and>
         (length (x_positions a) = length (x_list a) \<longleftrightarrow> length (color_list a) = length (x_list a)) \<and>
         (arg_color a = Str s \<longrightarrow> length (x_positions a) = length (x_list a))"
proof -
  have p: "x_positions a = map str_nat [0 ..< length (color_list a)]"
    using assms by (simp add: x_positions_def)
  have b: "js_vars fmt tbl a = Inr kws \<longrightarrow> map_of kws ''js_x'' = Some (js_x a)"
    using binding_js_vars(1) [of fmt tbl a kws] by simp
  have c: "arg_color a = Str s \<longrightarrow> length (color_list a) = length (x_list a)"
    by (simp add: color_list_def broadcast_def)
  show ?thesis using p b c by (simp add: js_x_def)
qed

theorem x_positions_non_cell_witness:
  "arg_type footer_args \<noteq> ''cell'' \<and>
   length (x_list footer_args) = 2 \<and> length (color_list footer_args) = 3 \<and>
   x_positions footer_args = [''0'', ''1'', ''2''] \<and>
   binding ''js_x'' (js_vars fmt_tenths example_data footer_args) = Inr (Some ''0, 1, 2'') \<and>
   arg_type (footer_args \<lparr> arg_color := Str ''red'' \<rparr>) \<noteq> ''cell'' \<and>
   length (x_positions (footer_args \<lparr> arg_color := Str ''red'' \<rparr>)) = 2"
proof -
  obtain kws where k: "js_vars fmt_tenths example_data footer_args = Inr kws"
    using js_vars_ok_iff [of fmt_tenths example_data footer_args] example_validates(2) by auto
  have t: "arg_type footer_args \<noteq> ''cell''"
    by (simp add: footer_args_def)
  have t': "arg_type (footer_args \<lparr> arg_color := Str ''red'' \<rparr>) \<noteq> ''cell''"
    by (simp add: footer_args_def)
  have l: "length (x_list footer_args) = 2" "length (color_list footer_args) = 3"
          "length (x_list (footer_args \<lparr> arg_color := Str ''red'' \<rparr>)) = 2"
    by (simp_all add: footer_args_def default_args_def x_list_def color_list_def broadcast_def)
  have m: "map str_nat [0 ..< 3] = [''0'', ''1'', ''2'']"
    by code_simp
  have "arg_color (footer_args \<lparr> arg_color := Str ''red'' \<rparr>) = Str ''red'' \<longrightarrow>
          length (x_positions (footer_args \<lparr> arg_color := Str ''red'' \<rparr>))
            = length (x_list (footer_args \<lparr> arg_color := Str ''red'' \<rparr>))"
    using x_positions_non_cell [OF t', of fmt_tenths example_data kws "''red''"] by blast
  then have w: "length (x_positions (footer_args \<lparr> arg_color := Str ''red'' \<rparr>)) = 2"
    using l(3) by simp
  have "x_positions footer_args = map str_nat [0 ..< length (color_list footer_args)] \<and>
        (js_vars fmt_tenths example_data footer_args = Inr kws \<longrightarrow>
           map_of kws ''js_x''
             = Some (join_str '', '' (map str_nat [0 ..< length (color_list footer_args)])))"
    using x_positions_non_cell [OF t, of fmt_tenths example_data kws] by blast
  then have v: "x_positions footer_args = [''0'', ''1'', ''2'']"
                "map_of kws ''js_x'' = Some ''0, 1, 2''"
    using k l(2) m by simp_all
  show ?thesis
    using v w k t t' l by (simp add: binding_def)
qed








text \<open>
  C1 (as amended). No length is compared: generation fails only with the missing-column
  \<open>ValueError\<close>, it fails exactly when a checked column is missing, and whether it fails,
  and with which error, does not depend on the vertical offsets, the hover text, the
  colours, the error-bar colours or the legend labels, whatever their lengths.
\<close>

theorem no_shape_check:
  "(sparkline_point_js t fmt tbl a = Inl e \<longrightarrow>
      (\<exists>c \<in> set (checked_columns a). c \<notin> set (columns tbl) \<and> e = not_found c)) \<and>
   (isl (sparkline_point_js t fmt tbl a) \<longleftrightarrow> \<not> set (checked_columns a) \<subseteq> set (columns tbl)) \<and>
   (sparkline_point_js t fmt tbl
      (a \<lparr> arg_y := y, arg_text := tx, arg_color := c, arg_color_errorbar := ce,
           arg_legend_label := ll \<rparr>) = Inl e
    \<longleftrightarrow> sparkline_point_js t fmt tbl a = Inl e)"
proof -
  have 1: "sparkline_point_js t fmt tbl a = Inl e \<longrightarrow>
      (\<exists>c \<in> set (checked_columns a). c \<notin> set (columns tbl) \<and> e = not_found c)"
    using validate_Inl_D [of tbl a e] by (simp add: sparkline_Inl_iff)
  have 3: "sparkline_point_js t fmt tbl
      (a \<lparr> arg_y := y, arg_text := tx, arg_color := c, arg_color_errorbar := ce,
           arg_legend_label := ll \<rparr>) = Inl e
    \<longleftrightarrow> sparkline_point_js t fmt tbl a = Inl e"
    by (simp only: sparkline_Inl_iff validate_indep)
  show ?thesis
    using 1 3 sparkline_isl_iff [of t fmt tbl a] by blast
qed

theorem no_shape_check_witness:
  "length (x_list mismatched_args) = 2 \<and>
   set (checked_columns mismatched_args) \<subseteq> set (columns example_data) \<and>
   \<not> isl (sparkline_point_js example_template fmt_tenths example_data mismatched_args) \<and>
   sparkline_point_js example_template fmt_tenths example_data missing_lower_args
     = Inl (not_found ''nope'') \<and>
   ''nope'' \<in> set (checked_columns missing_lower_args) \<and>
   ''nope'' \<notin> set (columns example_data)"
proof -
  have c: "checked_columns mismatched_args = [''value'', ''error'', ''error'', ''error'', ''error'', ''error'']"
          "checked_columns missing_lower_args = [''value'', ''nope'', ''nope'']"
          "length (x_list mismatched_args) = 2"
    by code_simp+
  have s: "set (checked_columns mismatched_args) \<subseteq> set (columns example_data)"
    by (simp add: c example_columns)
  have m: "sparkline_point_js example_template fmt_tenths example_data missing_lower_args
             = Inl (not_found ''nope'')"
    by code_simp
  have "\<exists>c \<in> set (checked_columns missing_lower_args).
          c \<notin> set (columns example_data) \<and> not_found ''nope'' = not_found c"
    using no_shape_check [of example_template fmt_tenths example_data missing_lower_args "not_found ''nope''"] m
    by blast
  then have 1: "''nope'' \<in> set (checked_columns missing_lower_args) \<and>
                ''nope'' \<notin> set (columns example_data)"
    by (auto simp: not_found_inj)
  have 2: "\<not> isl (sparkline_point_js example_template fmt_tenths example_data mismatched_args)"
    using no_shape_check [of example_template fmt_tenths example_data mismatched_args] s
    by blast
  show ?thesis
    using 1 2 s m c(3) by simp
qed

text \<open>
  C1 as the specification words it: a per-series sequence whose length is not the number
  of value columns is an error. With two value columns, three colours, one error-bar
  colour, one offset, no hover text and three legend labels, generation succeeds.
\<close>

theorem shape_mismatch_counterexample:
  "length (x_list mismatched_args) = 2 \<and>
   length (color_list mismatched_args) = 3 \<and>
   length (color_errorbar_list mismatched_args) = 1 \<and>
   length (y_list mismatched_args) = 1 \<and>
   length (text_list mismatched_args) = 0 \<and>
   arg_legend_label mismatched_args = Some [''a'', ''b'', ''c''] \<and>
   binding ''js_color'' (js_vars fmt_tenths example_data mismatched_args)
     = Inr (Some ''\"red\", \"green\", \"blue\"'') \<and>
   binding ''js_color_errorbar'' (js_vars fmt_tenths example_data mismatched_args)
     = Inr (Some ''\"black\"'') \<and>
   binding ''js_y'' (js_vars fmt_tenths example_data mismatched_args) = Inr (Some ''1'') \<and>
   binding ''js_text'' (js_vars fmt_tenths example_data mismatched_args) = Inr (Some []) \<and>
   binding ''js_legend_label'' (js_vars fmt_tenths example_data mismatched_args)
     = Inr (Some ''\"a\", \"b\", \"c\"'') \<and>
   \<not> isl (sparkline_point_js example_template fmt_tenths example_data mismatched_args)"
  by code_simp















end
